theory Spec2Isabelle
  imports Main "HOL-Library.Word" "HOL-Library.AList"
begin

section \<open>The Python binding of psdparse (src/bindings.cpp)\<close>

text \<open>
  The class \<open>PythonPSD\<close> of \<open>src/bindings.cpp\<close> derives from \<open>psd::PSDFile\<close> of the
  library psdparse and is exported to Python by pybind11. The binding is embedded here
  function by function. The library itself (headers \<open>psdparse/psdfile.h\<close> and
  \<open>psdparse/psdparse.h\<close>) is not part of the sources: its parser, its post-processing
  and its image decoders are parameters of the model (the record \<open>psdlib\<close>), so every
  theorem holds for whatever the library computes.
\<close>

subsection \<open>Machine integers and errors\<close>

type_synonym byte = "8 word"

text \<open>
  A C++ \<open>int\<close> is 32 bits wide. Values are kept as mathematical integers; the
  arithmetic the binding performs on them is checked, and a result outside the range is
  the outcome \<open>SignedOverflow\<close> (signed overflow has no defined behaviour in C++).
\<close>

definition INT_MAX :: int where
  "INT_MAX = 2147483647"

definition INT_MIN :: int where
  "INT_MIN = - 2147483648"

text \<open>
  \<open>RuntimeError\<close> is \<open>std::runtime_error\<close> with its message, \<open>NegativeDimensions\<close> is
  numpy refusing a negative shape, \<open>CastError\<close> is a failed \<open>cast<int>()\<close>.
\<close>

datatype error =
    RuntimeError string
  | NegativeDimensions
  | CastError
  | SignedOverflow

definition int_mul :: "int \<Rightarrow> int \<Rightarrow> error + int" where
  "int_mul a b =
     (if INT_MIN \<le> a * b \<and> a * b \<le> INT_MAX then Inr (a * b) else Inl SignedOverflow)"

definition int_incr :: "int \<Rightarrow> error + int" where
  "int_incr a = (if a + 1 \<le> INT_MAX then Inr (a + 1) else Inl SignedOverflow)"

subsection \<open>Python values\<close>

text \<open>
  What the binding hands to Python: \<open>py::none\<close>, booleans, integers, strings, lists and
  dictionaries. A dictionary keeps its keys in insertion order; assigning to a key that
  is present replaces its value in place.
\<close>

datatype pyobj =
    PyNone
  | PyBool bool
  | PyInt int
  | PyStr string
  | PyList "pyobj list"
  | PyDict "(pyobj \<times> pyobj) list"

type_synonym pydict = "(pyobj \<times> pyobj) list"

definition dict_set :: "pydict \<Rightarrow> pyobj \<Rightarrow> pyobj \<Rightarrow> pydict" where
  "dict_set d k v = AList.update k v d"

definition dict_contains :: "pydict \<Rightarrow> pyobj \<Rightarrow> bool" where
  "dict_contains d k = (map_of d k \<noteq> None)"

definition dict_get :: "pydict \<Rightarrow> pyobj \<Rightarrow> pyobj option" where
  "dict_get d k = map_of d k"

definition dict_of :: "(string \<times> pyobj) list \<Rightarrow> pydict" where
  "dict_of kvs = foldl (\<lambda>d (k, v). dict_set d (PyStr k) v) [] kvs"

text \<open>A numpy array of shape (height, width, 4): rows of pixels of four bytes.\<close>

type_synonym ndarray3 = "byte list list list"

subsection \<open>The document model of psdparse, as far as the binding reads it\<close>

text \<open>
  The members keep the names they have in the binding, after a prefix that tells the
  structure (\<open>h_\<close> for the header, \<open>lay_\<close> for a layer, \<open>mask_\<close> for a layer mask, and
  so on): a field of a record is a constant of the theory, and \<open>width\<close> or \<open>top\<close> occur
  in several structures.
\<close>

record Header =
  h_width :: int
  h_height :: int
  h_channels :: int
  h_depth :: int
  h_mode :: int

record LayerMask =
  mask_top :: int
  mask_left :: int
  mask_width :: int
  mask_height :: int
  mask_defaultColor :: byte

text \<open>Of a channel the binding only asks \<open>isMaskChannel()\<close>.\<close>

record ChannelInfo =
  ch_isMaskChannel :: bool

record LayerCompInfo =
  lci_id :: int
  lci_offsetX :: int
  lci_offsetY :: int
  lci_isEnabled :: bool

text \<open>The enumerators that \<open>PYBIND11_MODULE\<close> exports.\<close>

datatype BlendMode =
    BLEND_MODE_NORMAL
  | BLEND_MODE_DARKEN
  | BLEND_MODE_MULTIPLY
  | BLEND_MODE_COLOR_BURN
  | BLEND_MODE_LINEAR_BURN
  | BLEND_MODE_LIGHTEN
  | BLEND_MODE_SCREEN
  | BLEND_MODE_COLOR_DODGE
  | BLEND_MODE_LINEAR_DODGE
  | BLEND_MODE_OVERLAY
  | BLEND_MODE_SOFT_LIGHT
  | BLEND_MODE_HARD_LIGHT
  | BLEND_MODE_VIVID_LIGHT
  | BLEND_MODE_LINEAR_LIGHT
  | BLEND_MODE_PIN_LIGHT
  | BLEND_MODE_HARD_MIX
  | BLEND_MODE_DIFFERENCE
  | BLEND_MODE_EXCLUSION
  | BLEND_MODE_DISSOLVE
  | BLEND_MODE_DARKER_COLOR
  | BLEND_MODE_LIGHTER_COLOR
  | BLEND_MODE_SUBTRACT
  | BLEND_MODE_DIVIDE

datatype LayerType = LAYER_TYPE_NORMAL | LAYER_TYPE_FOLDER | LAYER_TYPE_HIDDEN

datatype ImageMode = IMAGE_MODE_MASK | IMAGE_MODE_IMAGE | IMAGE_MODE_MASKEDIMAGE

datatype ColorFormat = BGRA_LE

text \<open>
  A layer. The four flags stand for the results of \<open>isVisible()\<close>, \<open>isObsolete()\<close>,
  \<open>isTransparencyProtected()\<close> and \<open>isPixelDataIrrelevant()\<close>; \<open>lay_layerMask\<close> is
  \<open>extraData.layerMask\<close>; \<open>lay_parent\<close> is the pointer \<open>parent\<close>, null or the position
  in the layer list of the layer it points to.
\<close>

record LayerInfo =
  lay_top :: int
  lay_left :: int
  lay_bottom :: int
  lay_right :: int
  lay_width :: int
  lay_height :: int
  lay_opacity :: int
  lay_fill_opacity :: int
  lay_channels :: "ChannelInfo list"
  lay_blendMode :: BlendMode
  lay_layerType :: LayerType
  lay_isVisible :: bool
  lay_isObsolete :: bool
  lay_isTransparencyProtected :: bool
  lay_isPixelDataIrrelevant :: bool
  lay_layerName :: string
  lay_layerNameUnicode :: "nat list"
  lay_clipping :: int
  lay_layerId :: int
  lay_parent :: "nat option"
  lay_layerComps :: "(int \<times> LayerCompInfo) list"
  lay_layerMask :: LayerMask

record SliceItem =
  si_id :: int
  si_groupId :: int
  si_origin :: int
  si_type :: int
  si_left :: int
  si_top :: int
  si_right :: int
  si_bottom :: int
  si_colorA :: int
  si_colorR :: int
  si_colorG :: int
  si_colorB :: int
  si_isCellTextHtml :: bool
  si_horizontalAlign :: int
  si_verticalAlign :: int
  si_associatedLayerId :: int
  si_name :: string
  si_url :: string
  si_target :: string
  si_message :: string
  si_altTag :: string
  si_cellText :: string

record SliceResource =
  sr_isEnabled :: bool
  sr_boundingTop :: int
  sr_boundingLeft :: int
  sr_boundingBottom :: int
  sr_boundingRight :: int
  sr_groupName :: string
  sr_slices :: "SliceItem list"

record GuideItem =
  gi_location :: int
  gi_direction :: int

record GridGuideResource =
  gg_isEnabled :: bool
  gg_horizontalGrid :: int
  gg_verticalGrid :: int
  gg_guides :: "GuideItem list"

record LayerComp =
  lc_id :: int
  lc_isRecordVisibility :: bool
  lc_isRecordPosition :: bool
  lc_isRecordAppearance :: bool
  lc_name :: string
  lc_comment :: string

text \<open>
  \<open>psd::Data\<close>, the members the binding reads. \<open>imageData\<close> tells whether the handle of
  the merged image is set (the binding only tests \<open>!imageData\<close>).
\<close>

record Data =
  header :: Header
  layerList :: "LayerInfo list"
  imageData :: bool
  slice :: SliceResource
  gridGuide :: GridGuideResource
  layerComps :: "LayerComp list"
  lastAppliedCompId :: int

text \<open>
  An object of class \<open>PythonPSD\<close>: the inherited document (\<open>doc\<close>), the inherited flag
  \<open>isLoaded\<close>, and the private copy \<open>fileData\<close> of the bytes last loaded.
\<close>

record PythonPSD =
  doc :: Data
  isLoaded :: bool
  fileData :: "byte list"

subsection \<open>The library psdparse, a parameter\<close>

text \<open>
  \<^item> \<open>lib_parse bytes d\<close> is \<open>parse(begin, end, parser)\<close> with the parser bound to the
    document \<open>d\<close>: the success flag, the offset the cursor \<open>begin\<close> has reached, and the
    document as far as the parser has filled it;
  \<^item> \<open>lib_processParsed\<close> is \<open>processParsed()\<close>: its result and the document after it;
  \<^item> \<open>lib_load\<close> is \<open>psd::PSDFile::load\<close>;
  \<^item> \<open>lib_getLayerImage s lay fmt pitch mode k\<close> is the byte that \<open>getLayerImage\<close>
    leaves at offset \<open>k\<close> of the buffer it fills, \<open>lib_getMergedImage\<close> the same for
    \<open>getMergedImage\<close>; both read the object and return no new one, as the spec
    (section 5) has the rendering of a loaded document pure;
  \<^item> \<open>lib_wstring_to_string\<close> is the UTF conversion of boost;
  \<^item> \<open>lib_BlendMode_int\<close> and \<open>lib_LayerType_int\<close> are the numeric values of the
    enumerators (\<open>static_cast<int>\<close>).
\<close>

record psdlib =
  lib_parse :: "byte list \<Rightarrow> Data \<Rightarrow> bool \<times> nat \<times> Data"
  lib_processParsed :: "Data \<Rightarrow> bool \<times> Data"
  lib_load :: "string \<Rightarrow> PythonPSD \<Rightarrow> bool \<times> PythonPSD"
  lib_getLayerImage :: "PythonPSD \<Rightarrow> LayerInfo \<Rightarrow> ColorFormat \<Rightarrow> int \<Rightarrow> ImageMode \<Rightarrow> nat \<Rightarrow> byte"
  lib_getMergedImage :: "PythonPSD \<Rightarrow> ColorFormat \<Rightarrow> int \<Rightarrow> nat \<Rightarrow> byte"
  lib_wstring_to_string :: "nat list \<Rightarrow> string"
  lib_BlendMode_int :: "BlendMode \<Rightarrow> int"
  lib_LayerType_int :: "LayerType \<Rightarrow> int"

subsection \<open>Clearing and loading\<close>

definition empty_Header :: Header where
  "empty_Header = \<lparr>h_width = 0, h_height = 0, h_channels = 0, h_depth = 0, h_mode = 0\<rparr>"

definition empty_Data :: Data where
  "empty_Data =
     \<lparr>header = empty_Header, layerList = [], imageData = False,
      slice = \<lparr>sr_isEnabled = False, sr_boundingTop = 0, sr_boundingLeft = 0,
               sr_boundingBottom = 0, sr_boundingRight = 0, sr_groupName = [],
               sr_slices = []\<rparr>,
      gridGuide = \<lparr>gg_isEnabled = False, gg_horizontalGrid = 0, gg_verticalGrid = 0,
                   gg_guides = []\<rparr>,
      layerComps = [], lastAppliedCompId = 0\<rparr>"

text \<open>
  Modelled from the spec: \<open>psd::PSDFile::clearData\<close>, a member of the library class that
  is not in the sources. The spec (section 3) has a document model that is created
  empty and that a new load request fully resets, and (section 9) a flag \<open>isLoaded\<close>
  that tells the empty from the loaded state: clearing gives the empty document and
  resets the flag.
\<close>

definition PSDFile_clearData :: "PythonPSD \<Rightarrow> PythonPSD" where
  "PSDFile_clearData s = s\<lparr>doc := empty_Data, isLoaded := False\<rparr>"

text \<open>\<open>PythonPSD::clearData\<close>: the inherited clearing, then \<open>fileData.clear()\<close>.\<close>

definition clearData :: "PythonPSD \<Rightarrow> PythonPSD" where
  "clearData s = (PSDFile_clearData s)\<lparr>fileData := []\<rparr>"

text \<open>The object the constructor \<open>PythonPSD()\<close> makes.\<close>

definition new_PythonPSD :: PythonPSD where
  "new_PythonPSD = \<lparr>doc = empty_Data, isLoaded = False, fileData = []\<rparr>"

definition loadFromFile :: "psdlib \<Rightarrow> string \<Rightarrow> PythonPSD \<Rightarrow> bool \<times> PythonPSD" where
  "loadFromFile L filepath s = lib_load L filepath (clearData s)"

text \<open>
  \<open>PythonPSD::loadFromBytes\<close>. The object is cleared, the bytes are copied into
  \<open>fileData\<close>, the parser runs over them; when it succeeds and the cursor stands at the
  end, \<open>isLoaded\<close> becomes the result of \<open>processParsed()\<close>; an object that is not loaded
  by then is cleared again.
\<close>

definition loadFromBytes :: "psdlib \<Rightarrow> byte list \<Rightarrow> PythonPSD \<Rightarrow> bool \<times> PythonPSD" where
  "loadFromBytes L bytes s0 =
     (let s1 = clearData s0;
          s2 = s1\<lparr>fileData := bytes\<rparr>;
          (r, pos, d) = lib_parse L (fileData s2) (doc s2);
          s3 = s2\<lparr>doc := d\<rparr>;
          s4 = (if r \<and> pos = length (fileData s3)
                then (let (ok, d') = lib_processParsed L (doc s3)
                      in s3\<lparr>doc := d', isLoaded := ok\<rparr>)
                else s3);
          s5 = (if \<not> isLoaded s4 then clearData s4 else s4)
      in (isLoaded s5, s5))"

subsection \<open>Document summary\<close>

text \<open>\<open>PythonPSD::getBasicInfo\<close>: the empty dictionary unless a document is loaded.\<close>

definition getBasicInfo :: "PythonPSD \<Rightarrow> pydict" where
  "getBasicInfo s =
     (if \<not> isLoaded s then []
      else dict_of
        [(''width'', PyInt (h_width (header (doc s)))),
         (''height'', PyInt (h_height (header (doc s)))),
         (''channels'', PyInt (h_channels (header (doc s)))),
         (''depth'', PyInt (h_depth (header (doc s)))),
         (''color_mode'', PyInt (h_mode (header (doc s)))),
         (''layer_count'', PyInt (int (length (layerList (doc s)))))])"

definition cast_int :: "pyobj \<Rightarrow> error + int" where
  "cast_int v = (case v of PyInt i \<Rightarrow> Inr i | _ \<Rightarrow> Inl CastError)"

text \<open>
  The read-only properties of the Python class are all of one shape:
  \<open>getBasicInfo().contains(key) ? getBasicInfo()[key].cast<int>() : -1\<close>.
\<close>

definition basic_info_property :: "string \<Rightarrow> PythonPSD \<Rightarrow> error + int" where
  "basic_info_property key s =
     (if dict_contains (getBasicInfo s) (PyStr key)
      then (case dict_get (getBasicInfo s) (PyStr key) of
              Some v \<Rightarrow> cast_int v
            | None \<Rightarrow> Inl CastError)
      else Inr (- 1))"

definition property_width :: "PythonPSD \<Rightarrow> error + int" where
  "property_width = basic_info_property ''width''"

definition property_height :: "PythonPSD \<Rightarrow> error + int" where
  "property_height = basic_info_property ''height''"

definition property_channels :: "PythonPSD \<Rightarrow> error + int" where
  "property_channels = basic_info_property ''channels''"

definition property_depth :: "PythonPSD \<Rightarrow> error + int" where
  "property_depth = basic_info_property ''depth''"

definition property_color_mode :: "PythonPSD \<Rightarrow> error + int" where
  "property_color_mode = basic_info_property ''color_mode''"

definition property_layer_count :: "PythonPSD \<Rightarrow> error + int" where
  "property_layer_count = basic_info_property ''layer_count''"

subsection \<open>Per-layer accessors\<close>

text \<open>
  The guard that opens each of them. The layer count of a PSD file is a 16-bit field,
  so \<open>static_cast<int>(layerList.size())\<close> is the length of the list.
\<close>

definition invalid_layer :: "PythonPSD \<Rightarrow> int \<Rightarrow> bool" where
  "invalid_layer s layerNo =
     (\<not> isLoaded s \<or> layerNo < 0 \<or> layerNo \<ge> int (length (layerList (doc s))))"

definition invalid_layer_error :: error where
  "invalid_layer_error = RuntimeError ''Invalid layer number or no PSD data loaded''"

text \<open>The error of the other methods when no document is loaded.\<close>

definition no_data_error :: error where
  "no_data_error = RuntimeError ''No PSD data loaded''"

definition getLayerType :: "psdlib \<Rightarrow> PythonPSD \<Rightarrow> int \<Rightarrow> error + int" where
  "getLayerType L s layerNo =
     (if invalid_layer s layerNo then Inl invalid_layer_error
      else Inr (lib_LayerType_int L (lay_layerType (layerList (doc s) ! nat layerNo))))"

definition getLayerName :: "psdlib \<Rightarrow> PythonPSD \<Rightarrow> int \<Rightarrow> error + string" where
  "getLayerName L s layerNo =
     (if invalid_layer s layerNo then Inl invalid_layer_error
      else (let lay = layerList (doc s) ! nat layerNo
            in if lay_layerNameUnicode lay \<noteq> []
               then Inr (lib_wstring_to_string L (lay_layerNameUnicode lay))
               else Inr (lay_layerName lay)))"

text \<open>The lambda \<open>convBlendModeToString\<close> of \<open>getLayerInfo\<close>, with its default arm.\<close>

fun convBlendModeToString :: "BlendMode \<Rightarrow> string" where
  "convBlendModeToString BLEND_MODE_NORMAL = ''normal''"
| "convBlendModeToString BLEND_MODE_DARKEN = ''darken''"
| "convBlendModeToString BLEND_MODE_MULTIPLY = ''multiply''"
| "convBlendModeToString BLEND_MODE_COLOR_BURN = ''color_burn''"
| "convBlendModeToString BLEND_MODE_LINEAR_BURN = ''linear_burn''"
| "convBlendModeToString BLEND_MODE_LIGHTEN = ''lighten''"
| "convBlendModeToString BLEND_MODE_SCREEN = ''screen''"
| "convBlendModeToString BLEND_MODE_COLOR_DODGE = ''color_dodge''"
| "convBlendModeToString BLEND_MODE_LINEAR_DODGE = ''linear_dodge''"
| "convBlendModeToString BLEND_MODE_OVERLAY = ''overlay''"
| "convBlendModeToString BLEND_MODE_SOFT_LIGHT = ''soft_light''"
| "convBlendModeToString BLEND_MODE_HARD_LIGHT = ''hard_light''"
| "convBlendModeToString BLEND_MODE_DIFFERENCE = ''difference''"
| "convBlendModeToString BLEND_MODE_EXCLUSION = ''exclusion''"
| "convBlendModeToString _ = ''normal''"

definition layer_comp_dict :: "(int \<times> LayerCompInfo) list \<Rightarrow> pydict" where
  "layer_comp_dict comps =
     foldl (\<lambda>compDict (key, comp).
              dict_set compDict (PyInt (lci_id comp))
                (PyDict (dict_of
                   [(''id'', PyInt (lci_id comp)),
                    (''offset_x'', PyInt (lci_offsetX comp)),
                    (''offset_y'', PyInt (lci_offsetY comp)),
                    (''enable'', PyBool (lci_isEnabled comp))])))
           [] comps"

definition getLayerInfo :: "psdlib \<Rightarrow> PythonPSD \<Rightarrow> int \<Rightarrow> error + pydict" where
  "getLayerInfo L s layerNo =
     (if invalid_layer s layerNo then Inl invalid_layer_error
      else
        (let lay = layerList (doc s) ! nat layerNo;
             hasMask = list_ex ch_isMaskChannel (lay_channels lay)
         in case getLayerName L s layerNo of
              Inl e \<Rightarrow> Inl e
            | Inr name \<Rightarrow>
                (let result = dict_of
                       [(''top'', PyInt (lay_top lay)),
                        (''left'', PyInt (lay_left lay)),
                        (''bottom'', PyInt (lay_bottom lay)),
                        (''right'', PyInt (lay_right lay)),
                        (''width'', PyInt (lay_width lay)),
                        (''height'', PyInt (lay_height lay)),
                        (''opacity'', PyInt (lay_opacity lay)),
                        (''fill_opacity'', PyInt (lay_fill_opacity lay)),
                        (''mask'', PyBool hasMask),
                        (''type'', PyStr (convBlendModeToString (lay_blendMode lay))),
                        (''layer_type'', PyInt (lib_LayerType_int L (lay_layerType lay))),
                        (''blend_mode'', PyInt (lib_BlendMode_int L (lay_blendMode lay))),
                        (''visible'', PyBool (lay_isVisible lay)),
                        (''name'', PyStr name),
                        (''clipping'', PyInt (lay_clipping lay)),
                        (''layer_id'', PyInt (lay_layerId lay)),
                        (''obsolete'', PyBool (lay_isObsolete lay)),
                        (''transparency_protected'', PyBool (lay_isTransparencyProtected lay)),
                        (''pixel_data_irrelevant'', PyBool (lay_isPixelDataIrrelevant lay))];
                     result = (case lay_parent lay of
                                 None \<Rightarrow> result
                               | Some p \<Rightarrow>
                                   dict_set result (PyStr ''group_layer_id'')
                                     (PyInt (lay_layerId (layerList (doc s) ! p))));
                     result = (if lay_layerComps lay \<noteq> []
                               then dict_set result (PyStr ''layer_comp'')
                                      (PyDict (layer_comp_dict (lay_layerComps lay)))
                               else result)
                 in Inr result)))"

subsection \<open>Pixel data\<close>

text \<open>
  The three nested loops that copy the buffer into the array:
  \<open>buf(y, x, c) = buffer[y * pitch + x * 4 + c]\<close>.
\<close>

definition copy_buffer :: "(nat \<Rightarrow> byte) \<Rightarrow> int \<Rightarrow> int \<Rightarrow> int \<Rightarrow> ndarray3" where
  "copy_buffer buffer pitch height width =
     map (\<lambda>y. map (\<lambda>x. map (\<lambda>c. buffer (nat (int y * pitch + int x * 4 + int c)))
                           [0..<4])
                  [0..<nat width])
         [0..<nat height]"

text \<open>
  The part that \<open>getLayerData\<close> and \<open>getBlend\<close> share: \<open>int pitch = width * 4\<close>, a buffer
  of \<open>pitch * height\<close> bytes (an \<open>int\<close> product), the call of the library that fills it,
  and the copy. \<open>getImage pitch\<close> is the buffer as the library leaves it.
\<close>

definition fetch_image :: "(int \<Rightarrow> nat \<Rightarrow> byte) \<Rightarrow> int \<Rightarrow> int \<Rightarrow> error + ndarray3" where
  "fetch_image getImage width height =
     (case int_mul width 4 of
        Inl e \<Rightarrow> Inl e
      | Inr pitch \<Rightarrow>
          (case int_mul pitch height of
             Inl e \<Rightarrow> Inl e
           | Inr n \<Rightarrow> Inr (copy_buffer (getImage pitch) pitch height width)))"

text \<open>
  \<open>PythonPSD::getLayerData\<close>. The method is not \<open>const\<close>, so the object is returned
  with the result; no statement of the method assigns to a member.
\<close>

definition getLayerData ::
  "psdlib \<Rightarrow> PythonPSD \<Rightarrow> int \<Rightarrow> string \<Rightarrow> (error + ndarray3) \<times> PythonPSD" where
  "getLayerData L s layerNo mode =
     (if invalid_layer s layerNo then (Inl invalid_layer_error, s)
      else
        (let lay = layerList (doc s) ! nat layerNo;
             mask = lay_layerMask lay
         in if mode = ''mask'' \<and> (mask_width mask \<le> 0 \<or> mask_height mask \<le> 0)
            then (Inr [[[mask_defaultColor mask, mask_defaultColor mask,
                         mask_defaultColor mask, 255]]], s)
            else
              (let (imageMode, width, height) =
                     (if mode = ''mask''
                      then (IMAGE_MODE_MASK, mask_width mask, mask_height mask)
                      else if mode = ''raw''
                      then (IMAGE_MODE_IMAGE, lay_width lay, lay_height lay)
                      else (IMAGE_MODE_MASKEDIMAGE, lay_width lay, lay_height lay))
               in if width \<le> 0 \<or> height \<le> 0
                  then (Inl (RuntimeError ''Layer has zero width or height''), s)
                  else (fetch_image
                          (\<lambda>pitch. lib_getLayerImage L s lay BGRA_LE pitch imageMode)
                          width height, s))))"

text \<open>
  \<open>PythonPSD::getBlend\<close>. The array of shape (height, width, 4) is made first; numpy
  refuses a negative dimension.
\<close>

definition getBlend :: "psdlib \<Rightarrow> PythonPSD \<Rightarrow> (error + ndarray3) \<times> PythonPSD" where
  "getBlend L s =
     (if \<not> isLoaded s then (Inl no_data_error, s)
      else if \<not> imageData (doc s)
      then (Inl (RuntimeError ''No composite image data available in the PSD file''), s)
      else
        (let width = h_width (header (doc s));
             height = h_height (header (doc s))
         in if height < 0 \<or> width < 0 then (Inl NegativeDimensions, s)
            else (fetch_image (\<lambda>pitch. lib_getMergedImage L s BGRA_LE pitch)
                    width height, s)))"

subsection \<open>Resources\<close>

text \<open>
  \<open>getSlices\<close>, \<open>getGuides\<close> and \<open>getLayerComp\<close> read the document and assign to no
  member. The colour of a slice is packed from four components by shifts in \<open>int\<close>:
  \<open>(colorA << 24) | (colorR << 16) | (colorG << 8) | colorB\<close>, read as a 32-bit
  signed value.
\<close>

definition slice_color :: "SliceItem \<Rightarrow> int" where
  "slice_color item =
     signed_take_bit 31
       (or (or (or (push_bit 24 (si_colorA item)) (push_bit 16 (si_colorR item)))
               (push_bit 8 (si_colorG item)))
           (si_colorB item))"

definition slice_dict :: "SliceItem \<Rightarrow> pydict" where
  "slice_dict item = dict_of
     [(''id'', PyInt (si_id item)),
      (''group_id'', PyInt (si_groupId item)),
      (''origin'', PyInt (si_origin item)),
      (''type'', PyInt (si_type item)),
      (''left'', PyInt (si_left item)),
      (''top'', PyInt (si_top item)),
      (''right'', PyInt (si_right item)),
      (''bottom'', PyInt (si_bottom item)),
      (''color'', PyInt (slice_color item)),
      (''cell_text_is_html'', PyBool (si_isCellTextHtml item)),
      (''horizontal_alignment'', PyInt (si_horizontalAlign item)),
      (''vertical_alignment'', PyInt (si_verticalAlign item)),
      (''associated_layer_id'', PyInt (si_associatedLayerId item)),
      (''name'', PyStr (si_name item)),
      (''url'', PyStr (si_url item)),
      (''target'', PyStr (si_target item)),
      (''message'', PyStr (si_message item)),
      (''alt_tag'', PyStr (si_altTag item)),
      (''cell_text'', PyStr (si_cellText item))]"

definition getSlices :: "PythonPSD \<Rightarrow> error + pyobj" where
  "getSlices s =
     (if \<not> isLoaded s then Inl no_data_error
      else if \<not> sr_isEnabled (slice (doc s)) then Inr PyNone
      else (let sr = slice (doc s)
            in Inr (PyDict (dict_of
                 [(''top'', PyInt (sr_boundingTop sr)),
                  (''left'', PyInt (sr_boundingLeft sr)),
                  (''bottom'', PyInt (sr_boundingBottom sr)),
                  (''right'', PyInt (sr_boundingRight sr)),
                  (''name'', PyStr (sr_groupName sr)),
                  (''slices'', PyList (map (\<lambda>item. PyDict (slice_dict item))
                                          (sr_slices sr)))]))))"

definition getGuides :: "PythonPSD \<Rightarrow> error + pyobj" where
  "getGuides s =
     (if \<not> isLoaded s then Inl no_data_error
      else if \<not> gg_isEnabled (gridGuide (doc s)) then Inr PyNone
      else (let gg = gridGuide (doc s);
                verticalGuides =
                  map (\<lambda>g. PyInt (gi_location g))
                    (filter (\<lambda>g. gi_direction g = 0) (gg_guides gg));
                horizontalGuides =
                  map (\<lambda>g. PyInt (gi_location g))
                    (filter (\<lambda>g. gi_direction g \<noteq> 0) (gg_guides gg))
            in Inr (PyDict (dict_of
                 [(''horz_grid'', PyInt (gg_horizontalGrid gg)),
                  (''vert_grid'', PyInt (gg_verticalGrid gg)),
                  (''vertical'', PyList verticalGuides),
                  (''horizontal'', PyList horizontalGuides)]))))"

definition getLayerComp :: "PythonPSD \<Rightarrow> error + pyobj" where
  "getLayerComp s =
     (if \<not> isLoaded s then Inl no_data_error
      else if layerComps (doc s) = [] then Inr PyNone
      else Inr (PyDict (dict_of
             [(''last_applied_id'', PyInt (lastAppliedCompId (doc s))),
              (''comps'', PyList (map (\<lambda>comp. PyDict (dict_of
                   [(''id'', PyInt (lc_id comp)),
                    (''record_visibility'', PyBool (lc_isRecordVisibility comp)),
                    (''record_position'', PyBool (lc_isRecordPosition comp)),
                    (''record_appearance'', PyBool (lc_isRecordAppearance comp)),
                    (''name'', PyStr (lc_name comp)),
                    (''comment'', PyStr (lc_comment comp))]))
                 (layerComps (doc s))))])))"

subsection \<open>Automatic layer ids\<close>

text \<open>The first loop of \<open>assignAutoIds\<close>: the largest layer id, from \<open>minId = -1\<close>.\<close>

fun max_layerId :: "int \<Rightarrow> LayerInfo list \<Rightarrow> int" where
  "max_layerId minId [] = minId"
| "max_layerId minId (layer # layers) =
     max_layerId (if minId < lay_layerId layer then lay_layerId layer else minId) layers"

text \<open>
  The second loop: a layer whose id is \<open>-1\<close> gets \<open>++baseId\<close>, and \<open>assigned\<close> is
  incremented. The result is the count (or the overflow that stopped the loop) and the
  layer list as the loop leaves it.
\<close>

fun assign_loop :: "int \<Rightarrow> int \<Rightarrow> LayerInfo list \<Rightarrow> (error + int) \<times> LayerInfo list" where
  "assign_loop baseId assigned [] = (Inr assigned, [])"
| "assign_loop baseId assigned (layer # layers) =
     (if lay_layerId layer = - 1
      then (case int_incr baseId of
              Inl e \<Rightarrow> (Inl e, layer # layers)
            | Inr baseId' \<Rightarrow>
                (case int_incr assigned of
                   Inl e \<Rightarrow> (Inl e, layer\<lparr>lay_layerId := baseId'\<rparr> # layers)
                 | Inr assigned' \<Rightarrow>
                     (let (r, layers') = assign_loop baseId' assigned' layers
                      in (r, layer\<lparr>lay_layerId := baseId'\<rparr> # layers'))))
      else (let (r, layers') = assign_loop baseId assigned layers
            in (r, layer # layers')))"

definition assignAutoIds :: "PythonPSD \<Rightarrow> int \<Rightarrow> (error + int) \<times> PythonPSD" where
  "assignAutoIds s baseId =
     (if \<not> isLoaded s then (Inl no_data_error, s)
      else
        (let minId = max_layerId (- 1) (layerList (doc s));
             baseId = (if baseId < minId then minId else baseId);
             (r, layers') = assign_loop baseId 0 (layerList (doc s))
         in (r, s\<lparr>doc := (doc s)\<lparr>layerList := layers'\<rparr>\<rparr>)))"

subsection \<open>The names of the blend modes\<close>

text \<open>
  The enumerated set of the spec (section 3), each mode under the lower-case name of its
  enumerator; the list is in the spec's order.
\<close>

fun blendModeName :: "BlendMode \<Rightarrow> string" where
  "blendModeName BLEND_MODE_NORMAL = ''normal''"
| "blendModeName BLEND_MODE_DARKEN = ''darken''"
| "blendModeName BLEND_MODE_MULTIPLY = ''multiply''"
| "blendModeName BLEND_MODE_COLOR_BURN = ''color_burn''"
| "blendModeName BLEND_MODE_LINEAR_BURN = ''linear_burn''"
| "blendModeName BLEND_MODE_LIGHTEN = ''lighten''"
| "blendModeName BLEND_MODE_SCREEN = ''screen''"
| "blendModeName BLEND_MODE_COLOR_DODGE = ''color_dodge''"
| "blendModeName BLEND_MODE_LINEAR_DODGE = ''linear_dodge''"
| "blendModeName BLEND_MODE_OVERLAY = ''overlay''"
| "blendModeName BLEND_MODE_SOFT_LIGHT = ''soft_light''"
| "blendModeName BLEND_MODE_HARD_LIGHT = ''hard_light''"
| "blendModeName BLEND_MODE_VIVID_LIGHT = ''vivid_light''"
| "blendModeName BLEND_MODE_LINEAR_LIGHT = ''linear_light''"
| "blendModeName BLEND_MODE_PIN_LIGHT = ''pin_light''"
| "blendModeName BLEND_MODE_HARD_MIX = ''hard_mix''"
| "blendModeName BLEND_MODE_DIFFERENCE = ''difference''"
| "blendModeName BLEND_MODE_EXCLUSION = ''exclusion''"
| "blendModeName BLEND_MODE_DISSOLVE = ''dissolve''"
| "blendModeName BLEND_MODE_DARKER_COLOR = ''darker_color''"
| "blendModeName BLEND_MODE_LIGHTER_COLOR = ''lighter_color''"
| "blendModeName BLEND_MODE_SUBTRACT = ''subtract''"
| "blendModeName BLEND_MODE_DIVIDE = ''divide''"

text \<open>The modes that have an arm of their own in \<open>convBlendModeToString\<close>.\<close>

definition named_blend_modes :: "BlendMode list" where
  "named_blend_modes =
     [BLEND_MODE_NORMAL, BLEND_MODE_DARKEN, BLEND_MODE_MULTIPLY, BLEND_MODE_COLOR_BURN,
      BLEND_MODE_LINEAR_BURN, BLEND_MODE_LIGHTEN, BLEND_MODE_SCREEN,
      BLEND_MODE_COLOR_DODGE, BLEND_MODE_LINEAR_DODGE, BLEND_MODE_OVERLAY,
      BLEND_MODE_SOFT_LIGHT, BLEND_MODE_HARD_LIGHT, BLEND_MODE_DIFFERENCE,
      BLEND_MODE_EXCLUSION]"

subsection \<open>What assignAutoIds is to compute\<close>

text \<open>
  The ids after the assignment, said at once: with \<open>top\<close> the largest of the base id and
  the layer ids, the layer at position \<open>i\<close> keeps its id unless that is \<open>-1\<close>, and then
  gets \<open>top + 1 +\<close> the number of unassigned layers before it.
\<close>

definition unassigned :: "LayerInfo list \<Rightarrow> LayerInfo list" where
  "unassigned layers = filter (\<lambda>layer. lay_layerId layer = - 1) layers"

definition top_id :: "int \<Rightarrow> LayerInfo list \<Rightarrow> int" where
  "top_id baseId layers = Max (insert baseId (lay_layerId ` set layers))"

definition renumbered :: "int \<Rightarrow> LayerInfo list \<Rightarrow> LayerInfo list" where
  "renumbered baseId layers =
     map (\<lambda>i. let layer = layers ! i
              in if lay_layerId layer = - 1
                 then layer\<lparr>lay_layerId :=
                        top_id baseId layers + 1 + int (length (unassigned (take i layers)))\<rparr>
                 else layer)
         [0..<length layers]"

subsection \<open>A small library and small documents\<close>

text \<open>
  A concrete library for the worked instances below: its parser accepts exactly the
  four bytes of the signature \<open>8BPS\<close> and then yields a document of one red layer of
  2 by 2 pixels; on other input it fails, leaving a header behind.
\<close>

definition demo_layer :: LayerInfo where
  "demo_layer =
     \<lparr>lay_top = 0, lay_left = 0, lay_bottom = 2, lay_right = 2, lay_width = 2,
      lay_height = 2, lay_opacity = 255, lay_fill_opacity = 255,
      lay_channels = [\<lparr>ch_isMaskChannel = False\<rparr>],
      lay_blendMode = BLEND_MODE_VIVID_LIGHT, lay_layerType = LAYER_TYPE_NORMAL,
      lay_isVisible = True, lay_isObsolete = False, lay_isTransparencyProtected = False,
      lay_isPixelDataIrrelevant = False, lay_layerName = ''red'',
      lay_layerNameUnicode = [], lay_clipping = 0, lay_layerId = - 1,
      lay_parent = None, lay_layerComps = [],
      lay_layerMask = \<lparr>mask_top = 0, mask_left = 0, mask_width = 0, mask_height = 0,
                        mask_defaultColor = 7\<rparr>\<rparr>"

definition demo_doc :: Data where
  "demo_doc = empty_Data
     \<lparr>header := \<lparr>h_width = 2, h_height = 2, h_channels = 3, h_depth = 8, h_mode = 3\<rparr>,
      layerList := [demo_layer], imageData := True\<rparr>"

fun demo_BlendMode_int :: "BlendMode \<Rightarrow> int" where
  "demo_BlendMode_int BLEND_MODE_NORMAL = 0"
| "demo_BlendMode_int BLEND_MODE_VIVID_LIGHT = 12"
| "demo_BlendMode_int _ = 1"

definition demo_red :: "nat \<Rightarrow> byte" where
  "demo_red k = (if k mod 4 < 2 then 0 else 255)"

definition demo_lib :: psdlib where
  "demo_lib =
     \<lparr>lib_parse = (\<lambda>bytes d.
         if bytes = [0x38, 0x42, 0x50, 0x53] then (True, 4, demo_doc)
         else (False, 0, d\<lparr>header := header demo_doc\<rparr>)),
      lib_processParsed = (\<lambda>d. (True, d)),
      lib_load = (\<lambda>filepath s. (False, s)),
      lib_getLayerImage = (\<lambda>s lay fmt pitch mode. demo_red),
      lib_getMergedImage = (\<lambda>s fmt pitch. demo_red),
      lib_wstring_to_string = map char_of,
      lib_BlendMode_int = demo_BlendMode_int,
      lib_LayerType_int = (\<lambda>t. case t of LAYER_TYPE_NORMAL \<Rightarrow> 0
                                | LAYER_TYPE_FOLDER \<Rightarrow> 1 | LAYER_TYPE_HIDDEN \<Rightarrow> 2)\<rparr>"

text \<open>The object after the signature has been loaded into a new one.\<close>

definition demo_loaded :: PythonPSD where
  "demo_loaded = \<lparr>doc = demo_doc, isLoaded = True, fileData = [0x38, 0x42, 0x50, 0x53]\<rparr>"

text \<open>A loaded document whose only layer has no area.\<close>

definition demo_flat :: PythonPSD where
  "demo_flat = demo_loaded
     \<lparr>doc := demo_doc\<lparr>layerList := [demo_layer\<lparr>lay_right := 0, lay_width := 0\<rparr>]\<rparr>\<rparr>"

text \<open>
  A loaded document of the largest canvas a PSD file can have, 30000 by 30000 pixels,
  with one layer that covers it and with a merged image.
\<close>

definition demo_large :: PythonPSD where
  "demo_large = demo_loaded
     \<lparr>doc := demo_doc
        \<lparr>header := \<lparr>h_width = 30000, h_height = 30000, h_channels = 3, h_depth = 8,
                     h_mode = 3\<rparr>,
         layerList := [demo_layer\<lparr>lay_bottom := 30000, lay_right := 30000,
                                   lay_width := 30000, lay_height := 30000\<rparr>]\<rparr>\<rparr>"

text \<open>The three layers of the spec's example, with ids \<open>-1\<close>, \<open>5\<close> and \<open>-1\<close>.\<close>

definition demo_three :: PythonPSD where
  "demo_three = demo_loaded
     \<lparr>doc := demo_doc
        \<lparr>layerList := [demo_layer, demo_layer\<lparr>lay_layerId := 5\<rparr>, demo_layer]\<rparr>\<rparr>"

section \<open>Loading\<close>

lemma clearData_new: "clearData s = new_PythonPSD"
  by (simp add: clearData_def PSDFile_clearData_def new_PythonPSD_def)

text \<open>
  The whole of \<open>loadFromBytes\<close> in one case distinction: the parser always starts from
  the empty document, whatever the object held before.
\<close>

lemma loadFromBytes_unfold:
  "loadFromBytes L bytes s =
     (case lib_parse L bytes empty_Data of
        (r, pos, d) \<Rightarrow>
          if r \<and> pos = length bytes \<and> fst (lib_processParsed L d)
          then (True, \<lparr>doc = snd (lib_processParsed L d), isLoaded = True,
                       fileData = bytes\<rparr>)
          else (False, new_PythonPSD))"
  by (auto simp: loadFromBytes_def clearData_new Let_def new_PythonPSD_def
           split: prod.splits)

text \<open>What each accessor gives on an object that holds no document.\<close>

lemma new_PythonPSD_accessors:
  "getBasicInfo new_PythonPSD = []"
  "getLayerType L new_PythonPSD i = Inl invalid_layer_error"
  "getLayerName L new_PythonPSD i = Inl invalid_layer_error"
  "getLayerInfo L new_PythonPSD i = Inl invalid_layer_error"
  "getLayerData L new_PythonPSD i m = (Inl invalid_layer_error, new_PythonPSD)"
  "getBlend L new_PythonPSD = (Inl no_data_error, new_PythonPSD)"
  "getSlices new_PythonPSD = Inl no_data_error"
  "getGuides new_PythonPSD = Inl no_data_error"
  "getLayerComp new_PythonPSD = Inl no_data_error"
  "assignAutoIds new_PythonPSD b = (Inl no_data_error, new_PythonPSD)"
  by (simp_all add: new_PythonPSD_def getBasicInfo_def getLayerType_def getLayerName_def
        getLayerInfo_def getLayerData_def getBlend_def getSlices_def getGuides_def
        getLayerComp_def assignAutoIds_def invalid_layer_def)

lemma demo_parse_signature:
  "loadFromBytes demo_lib [0x38, 0x42, 0x50, 0x53] new_PythonPSD = (True, demo_loaded)"
  by (simp add: loadFromBytes_unfold demo_lib_def demo_loaded_def)

text \<open>
  C2. Whenever \<open>loadFromBytes\<close> fails, that is the parser returns false, or its cursor
  has not reached the end of the bytes, or \<open>processParsed\<close> returns false, the call
  returns false and leaves the object as the constructor makes it: not loaded, with the
  empty document and no file bytes, so that nothing the parser had built can be seen by
  an accessor (the summary is empty and every other accessor raises).
\<close>

theorem loadFromBytes_failure_discards:
  assumes "lib_parse L bytes empty_Data = (r, pos, d)"
    and "\<not> r \<or> pos \<noteq> length bytes \<or> \<not> fst (lib_processParsed L d)"
  shows "loadFromBytes L bytes s = (False, new_PythonPSD)
       \<and> \<not> isLoaded (snd (loadFromBytes L bytes s))
       \<and> doc (snd (loadFromBytes L bytes s)) = empty_Data
       \<and> getBasicInfo (snd (loadFromBytes L bytes s)) = []
       \<and> getLayerType L (snd (loadFromBytes L bytes s)) i = Inl invalid_layer_error
       \<and> getLayerName L (snd (loadFromBytes L bytes s)) i = Inl invalid_layer_error
       \<and> getLayerInfo L (snd (loadFromBytes L bytes s)) i = Inl invalid_layer_error
       \<and> fst (getLayerData L (snd (loadFromBytes L bytes s)) i m) = Inl invalid_layer_error
       \<and> fst (getBlend L (snd (loadFromBytes L bytes s))) = Inl no_data_error
       \<and> getSlices (snd (loadFromBytes L bytes s)) = Inl no_data_error
       \<and> getGuides (snd (loadFromBytes L bytes s)) = Inl no_data_error
       \<and> getLayerComp (snd (loadFromBytes L bytes s)) = Inl no_data_error
       \<and> fst (assignAutoIds (snd (loadFromBytes L bytes s)) b) = Inl no_data_error"
proof -
  from assms have "loadFromBytes L bytes s = (False, new_PythonPSD)"
    by (auto simp: loadFromBytes_unfold)
  then show ?thesis
    by (simp add: new_PythonPSD_accessors) (simp add: new_PythonPSD_def)
qed

text \<open>
  An instance: the parser of the small library fails on the single byte 0 after it has
  written a header; the object, loaded before, ends as a new one.
\<close>

theorem loadFromBytes_failure_discards_witness:
  "loadFromBytes demo_lib [0] demo_loaded = (False, new_PythonPSD)"
proof -
  have p: "lib_parse demo_lib [0] empty_Data
             = (False, 0, empty_Data\<lparr>header := header demo_doc\<rparr>)"
    by (simp add: demo_lib_def)
  have c: "\<not> False \<or> (0::nat) \<noteq> length [0::byte]
             \<or> \<not> fst (lib_processParsed demo_lib (empty_Data\<lparr>header := header demo_doc\<rparr>))"
    by simp
  from loadFromBytes_failure_discards [OF p c] show ?thesis
    by (rule conjunct1)
qed

text \<open>
  C1, as the spec has it: a load that fails leaves the document of an earlier,
  successful load untouched. The code does not: the signature loads into a new object,
  and the failing load of the byte 0 into that object returns false and takes the
  document away; the name of layer 0, readable before, is an error afterwards.
\<close>

theorem loadFromBytes_failure_keeps_previous_counterexample:
  "loadFromBytes demo_lib [0x38, 0x42, 0x50, 0x53] new_PythonPSD = (True, demo_loaded)
   \<and> fst (loadFromBytes demo_lib [0] demo_loaded) = False
   \<and> snd (loadFromBytes demo_lib [0] demo_loaded) \<noteq> demo_loaded
   \<and> getLayerName demo_lib demo_loaded 0 = Inr ''red''
   \<and> getLayerName demo_lib (snd (loadFromBytes demo_lib [0] demo_loaded)) 0
       = Inl invalid_layer_error"
  by (simp add: loadFromBytes_unfold demo_lib_def demo_loaded_def new_PythonPSD_accessors
        new_PythonPSD_def getLayerName_def invalid_layer_def demo_doc_def demo_layer_def)

text \<open>
  C1, amended. On an object that an earlier load has loaded, a \<open>loadFromBytes\<close> whose
  parse fails returns false and discards the earlier document: the object is not
  loaded any more, and its header, its layer list and its resources are those of the
  empty document (\<open>clearData\<close> runs before the parser does).
\<close>

theorem loadFromBytes_failure_drops_previous:
  assumes "loadFromBytes L bytes0 s0 = (True, s)"
    and "\<not> fst (lib_parse L bytes empty_Data)"
  shows "isLoaded s
       \<and> fst (loadFromBytes L bytes s) = False
       \<and> \<not> isLoaded (snd (loadFromBytes L bytes s))
       \<and> header (doc (snd (loadFromBytes L bytes s))) = empty_Header
       \<and> layerList (doc (snd (loadFromBytes L bytes s))) = []
       \<and> \<not> imageData (doc (snd (loadFromBytes L bytes s)))
       \<and> \<not> sr_isEnabled (slice (doc (snd (loadFromBytes L bytes s))))
       \<and> \<not> gg_isEnabled (gridGuide (doc (snd (loadFromBytes L bytes s))))
       \<and> layerComps (doc (snd (loadFromBytes L bytes s))) = []"
proof -
  from assms(1) have "isLoaded s"
    by (auto simp: loadFromBytes_unfold split: prod.splits if_splits)
  moreover from assms(2) have "loadFromBytes L bytes s = (False, new_PythonPSD)"
    by (auto simp: loadFromBytes_unfold split: prod.splits)
  ultimately show ?thesis
    by (simp add: new_PythonPSD_def empty_Data_def)
qed

theorem loadFromBytes_failure_drops_previous_witness:
  "isLoaded demo_loaded
   \<and> layerList (doc demo_loaded) = [demo_layer]
   \<and> fst (loadFromBytes demo_lib [0] demo_loaded) = False
   \<and> layerList (doc (snd (loadFromBytes demo_lib [0] demo_loaded))) = []"
proof -
  have p: "\<not> fst (lib_parse demo_lib [0] empty_Data)"
    by (simp add: demo_lib_def)
  from loadFromBytes_failure_drops_previous [OF demo_parse_signature p] show ?thesis
    by (simp add: demo_loaded_def demo_doc_def)
qed

section \<open>An object without a document\<close>

text \<open>
  C10. While no document is loaded, \<open>getBasicInfo\<close> raises nothing and returns the
  empty dictionary, and each of the properties width, height, channels, depth,
  color_mode and layer_count is \<open>-1\<close>; the per-layer accessors raise.
\<close>

theorem unloaded_summary_and_properties:
  assumes "\<not> isLoaded s"
  shows "getBasicInfo s = []
       \<and> property_width s = Inr (- 1)
       \<and> property_height s = Inr (- 1)
       \<and> property_channels s = Inr (- 1)
       \<and> property_depth s = Inr (- 1)
       \<and> property_color_mode s = Inr (- 1)
       \<and> property_layer_count s = Inr (- 1)
       \<and> getLayerType L s i = Inl invalid_layer_error
       \<and> getLayerName L s i = Inl invalid_layer_error
       \<and> getLayerInfo L s i = Inl invalid_layer_error
       \<and> fst (getLayerData L s i m) = Inl invalid_layer_error"
  using assms
  by (simp add: getBasicInfo_def property_width_def property_height_def
        property_channels_def property_depth_def property_color_mode_def
        property_layer_count_def basic_info_property_def dict_contains_def
        getLayerType_def getLayerName_def getLayerInfo_def getLayerData_def
        invalid_layer_def)

theorem unloaded_summary_and_properties_witness:
  "getBasicInfo new_PythonPSD = []
   \<and> property_width new_PythonPSD = Inr (- 1)
   \<and> property_layer_count new_PythonPSD = Inr (- 1)
   \<and> getLayerType demo_lib new_PythonPSD 0 = Inl invalid_layer_error"
proof -
  have u: "\<not> isLoaded new_PythonPSD"
    by (simp add: new_PythonPSD_def)
  from unloaded_summary_and_properties [OF u, of demo_lib 0] show ?thesis
    by simp
qed

section \<open>Per-layer accessors\<close>

lemma fetch_image_not_RuntimeError: "fetch_image g w h \<noteq> Inl (RuntimeError msg)"
  by (auto simp: fetch_image_def int_mul_def split: sum.splits if_splits)

lemma getLayerData_state: "snd (getLayerData L s i m) = s"
  by (simp add: getLayerData_def Let_def split: prod.splits)

lemma fetch_image_in_range:
  assumes "0 \<le> width" and "0 \<le> height"
    and "width * 4 \<le> INT_MAX" and "width * 4 * height \<le> INT_MAX"
  shows "fetch_image getImage width height
           = Inr (copy_buffer (getImage (width * 4)) (width * 4) height width)"
proof -
  have "0 \<le> width * 4"
    using assms(1) by simp
  then have "0 \<le> width * 4 * height"
    using assms(2) by (rule mult_nonneg_nonneg)
  with \<open>0 \<le> width * 4\<close> have "INT_MIN \<le> width * 4" "INT_MIN \<le> width * 4 * height"
    by (simp_all add: INT_MIN_def)
  with assms(3,4) show ?thesis
    by (simp add: fetch_image_def int_mul_def)
qed

lemma pitch_fits:
  fixes w h :: int
  assumes "0 < w" and "0 < h" and "w * 4 * h \<le> INT_MAX"
  shows "w * 4 \<le> INT_MAX"
proof -
  have "1 \<le> h" and "0 \<le> w * 4"
    using assms(1,2) by simp_all
  then have "w * 4 * 1 \<le> w * 4 * h"
    by (rule mult_left_mono)
  then have "w * 4 \<le> w * 4 * h"
    by (simp only: mult_1_right)
  then show ?thesis
    using assms(3) by (rule order_trans)
qed

lemma fetch_image_positive:
  assumes "0 < w" and "0 < h" and "w * 4 * h \<le> INT_MAX"
  shows "fetch_image g w h = Inr (copy_buffer (g (w * 4)) (w * 4) h w)"
  using assms pitch_fits [OF assms] by (simp add: fetch_image_in_range)

text \<open>
  When \<open>getLayerData\<close> fails, as long as the size of the buffer it asks for (four bytes
  a pixel of the mask in mode \<open>mask\<close>, of the layer otherwise) is in the range of \<open>int\<close>.
\<close>

lemma getLayerData_fails_iff:
  assumes "m = ''mask'' \<and> 0 < mask_width (lay_layerMask (layerList (doc s) ! nat i))
             \<and> 0 < mask_height (lay_layerMask (layerList (doc s) ! nat i))
           \<longrightarrow> mask_width (lay_layerMask (layerList (doc s) ! nat i)) * 4
                 * mask_height (lay_layerMask (layerList (doc s) ! nat i)) \<le> INT_MAX"
    and "m \<noteq> ''mask'' \<and> 0 < lay_width (layerList (doc s) ! nat i)
             \<and> 0 < lay_height (layerList (doc s) ! nat i)
           \<longrightarrow> lay_width (layerList (doc s) ! nat i) * 4
                 * lay_height (layerList (doc s) ! nat i) \<le> INT_MAX"
  shows "(\<exists>e. fst (getLayerData L s i m) = Inl e)
      \<longleftrightarrow> (invalid_layer s i
           \<or> (m \<noteq> ''mask'' \<and> (lay_width (layerList (doc s) ! nat i) \<le> 0
                \<or> lay_height (layerList (doc s) ! nat i) \<le> 0)))"
proof (cases "invalid_layer s i")
  case True
  then show ?thesis by (simp add: getLayerData_def)
next
  case valid: False
  show ?thesis
  proof (cases "m = ''mask''")
    case mask: True
    show ?thesis
    proof (cases "mask_width (lay_layerMask (layerList (doc s) ! nat i)) \<le> 0
                  \<or> mask_height (lay_layerMask (layerList (doc s) ! nat i)) \<le> 0")
      case True
      with mask valid show ?thesis
        by (simp add: getLayerData_def Let_def)
    next
      case False
      then have p: "0 < mask_width (lay_layerMask (layerList (doc s) ! nat i))"
        "0 < mask_height (lay_layerMask (layerList (doc s) ! nat i))"
        by simp_all
      with assms(1) mask have
        "mask_width (lay_layerMask (layerList (doc s) ! nat i)) * 4
           * mask_height (lay_layerMask (layerList (doc s) ! nat i)) \<le> INT_MAX"
        by simp
      from fetch_image_positive [OF p this] p mask valid show ?thesis
        by (simp add: getLayerData_def Let_def)
    qed
  next
    case other: False
    show ?thesis
    proof (cases "lay_width (layerList (doc s) ! nat i) \<le> 0
                  \<or> lay_height (layerList (doc s) ! nat i) \<le> 0")
      case True
      with other valid show ?thesis
        by (simp add: getLayerData_def Let_def)
    next
      case False
      then have p: "0 < lay_width (layerList (doc s) ! nat i)"
        "0 < lay_height (layerList (doc s) ! nat i)"
        by simp_all
      with assms(2) other have
        "lay_width (layerList (doc s) ! nat i) * 4
           * lay_height (layerList (doc s) ! nat i) \<le> INT_MAX"
        by simp
      from fetch_image_positive [OF p this] p other valid show ?thesis
        by (simp add: getLayerData_def Let_def)
    qed
  qed
qed

text \<open>
  C7, as the spec has it: a per-layer accessor fails if and only if no document is
  loaded or the index is out of range. \<open>getLayerData\<close> fails in one case more: the
  document is loaded, the index 0 is that of its only layer, and the layer has width 0.
\<close>

theorem getLayerData_flat_layer_counterexample:
  "isLoaded demo_flat
   \<and> (0::int) \<le> 0 \<and> 0 < int (length (layerList (doc demo_flat)))
   \<and> fst (getLayerData demo_lib demo_flat 0 ''raw'')
       = Inl (RuntimeError ''Layer has zero width or height'')"
  by (simp add: demo_flat_def demo_loaded_def demo_doc_def demo_layer_def
        getLayerData_def invalid_layer_def)

text \<open>
  C7, amended. \<open>getLayerType\<close>, \<open>getLayerName\<close> and \<open>getLayerInfo\<close> fail if and only if
  no document is loaded or the index is outside the layer range. \<open>getLayerData\<close> raises
  the same error in exactly those cases, and it fails if and only if no document is
  loaded, or the index is outside the layer range, or the mode is not \<open>mask\<close> and the
  width or the height of the layer is not positive (the error is then \<open>Layer has zero
  width or height\<close>); this is said for the calls whose buffer, four bytes a pixel of
  the mask in mode \<open>mask\<close> and of the layer otherwise, has a size in the range of
  \<open>int\<close>. No call of \<open>getLayerData\<close> changes the object (the other three are \<open>const\<close>).
\<close>

theorem layer_accessors_fail_iff:
  "((\<exists>e. getLayerType L s i = Inl e)
      \<longleftrightarrow> (\<not> isLoaded s \<or> i < 0 \<or> int (length (layerList (doc s))) \<le> i))
 \<and> ((\<exists>e. getLayerName L s i = Inl e)
      \<longleftrightarrow> (\<not> isLoaded s \<or> i < 0 \<or> int (length (layerList (doc s))) \<le> i))
 \<and> ((\<exists>e. getLayerInfo L s i = Inl e)
      \<longleftrightarrow> (\<not> isLoaded s \<or> i < 0 \<or> int (length (layerList (doc s))) \<le> i))
 \<and> (fst (getLayerData L s i m) = Inl invalid_layer_error
      \<longleftrightarrow> (\<not> isLoaded s \<or> i < 0 \<or> int (length (layerList (doc s))) \<le> i))
 \<and> (isLoaded s \<and> 0 \<le> i \<and> i < int (length (layerList (doc s))) \<and> m \<noteq> ''mask''
      \<and> (lay_width (layerList (doc s) ! nat i) \<le> 0
          \<or> lay_height (layerList (doc s) ! nat i) \<le> 0)
      \<longrightarrow> fst (getLayerData L s i m)
            = Inl (RuntimeError ''Layer has zero width or height''))
 \<and> ((m = ''mask'' \<and> 0 < mask_width (lay_layerMask (layerList (doc s) ! nat i))
        \<and> 0 < mask_height (lay_layerMask (layerList (doc s) ! nat i))
      \<longrightarrow> mask_width (lay_layerMask (layerList (doc s) ! nat i)) * 4
            * mask_height (lay_layerMask (layerList (doc s) ! nat i)) \<le> INT_MAX)
    \<and> (m \<noteq> ''mask'' \<and> 0 < lay_width (layerList (doc s) ! nat i)
        \<and> 0 < lay_height (layerList (doc s) ! nat i)
      \<longrightarrow> lay_width (layerList (doc s) ! nat i) * 4
            * lay_height (layerList (doc s) ! nat i) \<le> INT_MAX)
    \<longrightarrow> ((\<exists>e. fst (getLayerData L s i m) = Inl e)
          \<longleftrightarrow> (\<not> isLoaded s \<or> i < 0 \<or> int (length (layerList (doc s))) \<le> i
               \<or> (m \<noteq> ''mask'' \<and> (lay_width (layerList (doc s) ! nat i) \<le> 0
                    \<or> lay_height (layerList (doc s) ! nat i) \<le> 0)))))
 \<and> snd (getLayerData L s i m) = s"
proof -
  have 1: "(\<exists>e. getLayerType L s i = Inl e) \<longleftrightarrow> invalid_layer s i"
    by (simp add: getLayerType_def)
  have 2: "(\<exists>e. getLayerName L s i = Inl e) \<longleftrightarrow> invalid_layer s i"
    by (simp add: getLayerName_def Let_def)
  have 3: "(\<exists>e. getLayerInfo L s i = Inl e) \<longleftrightarrow> invalid_layer s i"
    by (simp add: getLayerInfo_def getLayerName_def Let_def)
  have 4: "fst (getLayerData L s i m) = Inl invalid_layer_error \<longleftrightarrow> invalid_layer s i"
    by (simp add: getLayerData_def Let_def fetch_image_not_RuntimeError
          invalid_layer_error_def split: prod.splits)
  have 5: "\<not> invalid_layer s i \<and> m \<noteq> ''mask''
      \<and> (lay_width (layerList (doc s) ! nat i) \<le> 0
          \<or> lay_height (layerList (doc s) ! nat i) \<le> 0)
      \<longrightarrow> fst (getLayerData L s i m)
            = Inl (RuntimeError ''Layer has zero width or height'')"
    by (simp add: getLayerData_def Let_def)
  have inv: "invalid_layer s i
      \<longleftrightarrow> (\<not> isLoaded s \<or> i < 0 \<or> int (length (layerList (doc s))) \<le> i)"
    by (simp add: invalid_layer_def)
  have 6: "(m = ''mask'' \<and> 0 < mask_width (lay_layerMask (layerList (doc s) ! nat i))
        \<and> 0 < mask_height (lay_layerMask (layerList (doc s) ! nat i))
      \<longrightarrow> mask_width (lay_layerMask (layerList (doc s) ! nat i)) * 4
            * mask_height (lay_layerMask (layerList (doc s) ! nat i)) \<le> INT_MAX)
    \<and> (m \<noteq> ''mask'' \<and> 0 < lay_width (layerList (doc s) ! nat i)
        \<and> 0 < lay_height (layerList (doc s) ! nat i)
      \<longrightarrow> lay_width (layerList (doc s) ! nat i) * 4
            * lay_height (layerList (doc s) ! nat i) \<le> INT_MAX)
    \<longrightarrow> ((\<exists>e. fst (getLayerData L s i m) = Inl e)
          \<longleftrightarrow> (\<not> isLoaded s \<or> i < 0 \<or> int (length (layerList (doc s))) \<le> i
               \<or> (m \<noteq> ''mask'' \<and> (lay_width (layerList (doc s) ! nat i) \<le> 0
                    \<or> lay_height (layerList (doc s) ! nat i) \<le> 0))))"
  proof (intro impI, elim conjE)
    assume fits: "m = ''mask'' \<and> 0 < mask_width (lay_layerMask (layerList (doc s) ! nat i))
        \<and> 0 < mask_height (lay_layerMask (layerList (doc s) ! nat i))
      \<longrightarrow> mask_width (lay_layerMask (layerList (doc s) ! nat i)) * 4
            * mask_height (lay_layerMask (layerList (doc s) ! nat i)) \<le> INT_MAX"
      "m \<noteq> ''mask'' \<and> 0 < lay_width (layerList (doc s) ! nat i)
        \<and> 0 < lay_height (layerList (doc s) ! nat i)
      \<longrightarrow> lay_width (layerList (doc s) ! nat i) * 4
            * lay_height (layerList (doc s) ! nat i) \<le> INT_MAX"
    show "(\<exists>e. fst (getLayerData L s i m) = Inl e)
          \<longleftrightarrow> (\<not> isLoaded s \<or> i < 0 \<or> int (length (layerList (doc s))) \<le> i
               \<or> (m \<noteq> ''mask'' \<and> (lay_width (layerList (doc s) ! nat i) \<le> 0
                    \<or> lay_height (layerList (doc s) ! nat i) \<le> 0)))"
      using getLayerData_fails_iff [OF fits, of L] unfolding inv disj_assoc .
  qed
  have acc: "((\<exists>e. getLayerType L s i = Inl e)
      \<longleftrightarrow> (\<not> isLoaded s \<or> i < 0 \<or> int (length (layerList (doc s))) \<le> i))
   \<and> ((\<exists>e. getLayerName L s i = Inl e)
      \<longleftrightarrow> (\<not> isLoaded s \<or> i < 0 \<or> int (length (layerList (doc s))) \<le> i))
   \<and> ((\<exists>e. getLayerInfo L s i = Inl e)
      \<longleftrightarrow> (\<not> isLoaded s \<or> i < 0 \<or> int (length (layerList (doc s))) \<le> i))
   \<and> (fst (getLayerData L s i m) = Inl invalid_layer_error
      \<longleftrightarrow> (\<not> isLoaded s \<or> i < 0 \<or> int (length (layerList (doc s))) \<le> i))"
    using 1 2 3 4 unfolding inv by blast
  have flat: "isLoaded s \<and> 0 \<le> i \<and> i < int (length (layerList (doc s))) \<and> m \<noteq> ''mask''
      \<and> (lay_width (layerList (doc s) ! nat i) \<le> 0
          \<or> lay_height (layerList (doc s) ! nat i) \<le> 0)
      \<longrightarrow> fst (getLayerData L s i m)
            = Inl (RuntimeError ''Layer has zero width or height'')"
    using 5 unfolding inv by auto
  from acc flat 6 getLayerData_state [of L s i m] show ?thesis
    by - (elim conjE, intro conjI, assumption+)
qed

theorem layer_accessors_fail_iff_witness:
  "(\<exists>e. getLayerType demo_lib demo_flat 1 = Inl e)
   \<and> fst (getLayerData demo_lib demo_flat 1 ''raw'') = Inl invalid_layer_error
   \<and> fst (getLayerData demo_lib demo_flat 0 ''raw'')
       = Inl (RuntimeError ''Layer has zero width or height'')
   \<and> snd (getLayerData demo_lib demo_flat 0 ''raw'') = demo_flat
   \<and> \<not> (\<exists>e. fst (getLayerData demo_lib demo_loaded 0 ''raw'') = Inl e)
   \<and> \<not> (\<exists>e. fst (getLayerData demo_lib demo_flat 0 ''mask'') = Inl e)"
proof -
  have a: "isLoaded demo_flat" "length (layerList (doc demo_flat)) = 1"
    "lay_width (layerList (doc demo_flat) ! 0) = 0"
    "mask_width (lay_layerMask (layerList (doc demo_flat) ! 0)) = 0"
    by (simp_all add: demo_flat_def demo_loaded_def demo_doc_def demo_layer_def)
  have b: "isLoaded demo_loaded" "length (layerList (doc demo_loaded)) = 1"
    "lay_width (layerList (doc demo_loaded) ! 0) = 2"
    "lay_height (layerList (doc demo_loaded) ! 0) = 2"
    by (simp_all add: demo_loaded_def demo_doc_def demo_layer_def)
  have n: "''raw'' \<noteq> ''mask''"
    by simp
  from layer_accessors_fail_iff [of demo_lib demo_flat 1 "''raw''"]
  have w1: "(\<exists>e. getLayerType demo_lib demo_flat 1 = Inl e)
      \<and> fst (getLayerData demo_lib demo_flat 1 ''raw'') = Inl invalid_layer_error"
    by (simp add: a)
  from layer_accessors_fail_iff [of demo_lib demo_flat 0 "''raw''"]
  have w2: "fst (getLayerData demo_lib demo_flat 0 ''raw'')
        = Inl (RuntimeError ''Layer has zero width or height'')
      \<and> snd (getLayerData demo_lib demo_flat 0 ''raw'') = demo_flat"
    by (simp add: a)
  from layer_accessors_fail_iff [of demo_lib demo_loaded 0 "''raw''"]
  have w3: "\<not> (\<exists>e. fst (getLayerData demo_lib demo_loaded 0 ''raw'') = Inl e)"
    by (simp add: b n INT_MAX_def)
  from layer_accessors_fail_iff [of demo_lib demo_flat 0 "''mask''"]
  have w4: "\<not> (\<exists>e. fst (getLayerData demo_lib demo_flat 0 ''mask'') = Inl e)"
    by (simp add: a)
  from w1 w2 w3 w4 show ?thesis
    by blast
qed

subsection \<open>The blend mode of a layer\<close>

lemma dict_get_set:
  "dict_get (dict_set d k v) k' = (if k' = k then Some v else dict_get d k')"
  by (simp add: dict_get_def dict_set_def update_conv')

lemma convBlendModeToString_named:
  "convBlendModeToString mode =
     (if mode \<in> set named_blend_modes then blendModeName mode else ''normal'')"
  by (cases mode) (simp_all add: named_blend_modes_def)

text \<open>
  C3, as the spec has it: the symbolic name in the layer summary names the blend mode
  of the layer, for each of the 23 modes. The only layer of the loaded small document
  has the mode vivid-light, and its summary says \<open>normal\<close>.
\<close>

theorem getLayerInfo_blend_name_counterexample:
  "isLoaded demo_loaded
   \<and> lay_blendMode (layerList (doc demo_loaded) ! 0) = BLEND_MODE_VIVID_LIGHT
   \<and> blendModeName BLEND_MODE_VIVID_LIGHT = ''vivid_light''
   \<and> map_sum id (\<lambda>d. dict_get d (PyStr ''type'')) (getLayerInfo demo_lib demo_loaded 0)
       = Inr (Some (PyStr ''normal''))"
  by (simp add: getLayerInfo_def getLayerName_def invalid_layer_def Let_def dict_of_def
        dict_get_set demo_loaded_def demo_doc_def demo_layer_def)

text \<open>
  C3, amended. For a loaded document and a valid index, \<open>getLayerInfo\<close> reports the
  raw numeric code of the layer's blend mode under \<open>blend_mode\<close> and a symbolic name
  under \<open>type\<close>; the name is that of the mode for the fourteen modes normal, darken,
  multiply, color-burn, linear-burn, lighten, screen, color-dodge, linear-dodge,
  overlay, soft-light, hard-light, difference and exclusion, and it is \<open>normal\<close> for
  every other mode.
\<close>

theorem getLayerInfo_blend_mode:
  assumes "isLoaded s" and "0 \<le> i" and "i < int (length (layerList (doc s)))"
  shows "\<exists>d. getLayerInfo L s i = Inr d
     \<and> dict_get d (PyStr ''blend_mode'')
         = Some (PyInt (lib_BlendMode_int L (lay_blendMode (layerList (doc s) ! nat i))))
     \<and> dict_get d (PyStr ''type'')
         = Some (PyStr
             (if lay_blendMode (layerList (doc s) ! nat i) \<in> set named_blend_modes
              then blendModeName (lay_blendMode (layerList (doc s) ! nat i))
              else ''normal''))"
  using assms
  by (simp add: getLayerInfo_def getLayerName_def invalid_layer_def Let_def dict_of_def
        dict_get_set convBlendModeToString_named split: option.split)

theorem getLayerInfo_blend_mode_witness:
  "\<exists>d. getLayerInfo demo_lib demo_loaded 0 = Inr d
     \<and> dict_get d (PyStr ''blend_mode'') = Some (PyInt 12)
     \<and> dict_get d (PyStr ''type'') = Some (PyStr ''normal'')"
proof -
  have a: "isLoaded demo_loaded" "(0::int) \<le> 0"
    "0 < int (length (layerList (doc demo_loaded)))"
    by (simp_all add: demo_loaded_def demo_doc_def)
  have m: "lay_blendMode (layerList (doc demo_loaded) ! 0) = BLEND_MODE_VIVID_LIGHT"
    by (simp add: demo_loaded_def demo_doc_def demo_layer_def)
  have c: "lib_BlendMode_int demo_lib BLEND_MODE_VIVID_LIGHT = 12"
    by (simp add: demo_lib_def)
  from getLayerInfo_blend_mode [OF a, of demo_lib] show ?thesis
    by (simp add: m c named_blend_modes_def)
qed

section \<open>Pixel data\<close>

text \<open>The shape of the array that the copy loops fill.\<close>

lemma copy_buffer_shape:
  "length (copy_buffer buffer pitch height width) = nat height
   \<and> (\<forall>row \<in> set (copy_buffer buffer pitch height width).
        length row = nat width \<and> (\<forall>pixel \<in> set row. length pixel = 4))"
  by (auto simp: copy_buffer_def)

text \<open>
  C5. For a loaded document and a valid index, \<open>getLayerData\<close> in mode \<open>mask\<close> on a
  layer whose mask has no positive width or no positive height (a layer without mask
  data has a mask record of size zero) raises nothing and returns the array of one
  pixel (defaultColor, defaultColor, defaultColor, 255).
\<close>

theorem getLayerData_mask_placeholder:
  assumes "isLoaded s" and "0 \<le> i" and "i < int (length (layerList (doc s)))"
    and "mask_width (lay_layerMask (layerList (doc s) ! nat i)) \<le> 0
         \<or> mask_height (lay_layerMask (layerList (doc s) ! nat i)) \<le> 0"
  shows "fst (getLayerData L s i ''mask'') =
           Inr [[[mask_defaultColor (lay_layerMask (layerList (doc s) ! nat i)),
                  mask_defaultColor (lay_layerMask (layerList (doc s) ! nat i)),
                  mask_defaultColor (lay_layerMask (layerList (doc s) ! nat i)),
                  255]]]"
  using assms by (simp add: getLayerData_def invalid_layer_def Let_def)

theorem getLayerData_mask_placeholder_witness:
  "fst (getLayerData demo_lib demo_loaded 0 ''mask'') = Inr [[[7, 7, 7, 255]]]"
proof -
  have a: "isLoaded demo_loaded" "(0::int) \<le> 0"
    "0 < int (length (layerList (doc demo_loaded)))"
    by (simp_all add: demo_loaded_def demo_doc_def)
  have w: "mask_width (lay_layerMask (layerList (doc demo_loaded) ! nat 0)) \<le> 0
           \<or> mask_height (lay_layerMask (layerList (doc demo_loaded) ! nat 0)) \<le> 0"
    by (simp add: demo_loaded_def demo_doc_def demo_layer_def)
  from getLayerData_mask_placeholder [OF a w, of demo_lib] show ?thesis
    by (simp add: demo_loaded_def demo_doc_def demo_layer_def)
qed

text \<open>
  C9. A mode string other than \<open>mask\<close> and \<open>raw\<close> is taken for \<open>maskedimage\<close>: the call
  gives what the call with \<open>maskedimage\<close> gives, and no error is raised for the string;
  for a loaded document, a valid index and a layer of positive width and height that is
  the masked image of the library at the width and height of the layer.
\<close>

theorem getLayerData_other_mode_is_maskedimage:
  assumes "mode \<noteq> ''mask''" and "mode \<noteq> ''raw''"
  shows "getLayerData L s i mode = getLayerData L s i ''maskedimage''
       \<and> (isLoaded s \<and> 0 \<le> i \<and> i < int (length (layerList (doc s)))
          \<and> 0 < lay_width (layerList (doc s) ! nat i)
          \<and> 0 < lay_height (layerList (doc s) ! nat i)
          \<longrightarrow> fst (getLayerData L s i mode)
                = fetch_image
                    (\<lambda>pitch. lib_getLayerImage L s (layerList (doc s) ! nat i) BGRA_LE
                               pitch IMAGE_MODE_MASKEDIMAGE)
                    (lay_width (layerList (doc s) ! nat i))
                    (lay_height (layerList (doc s) ! nat i)))"
  using assms by (simp add: getLayerData_def invalid_layer_def Let_def)

theorem getLayerData_other_mode_is_maskedimage_witness:
  "getLayerData demo_lib demo_loaded 0 [] = getLayerData demo_lib demo_loaded 0 ''maskedimage''
   \<and> getLayerData demo_lib demo_loaded 0 ''Raw''
       = getLayerData demo_lib demo_loaded 0 ''maskedimage''
   \<and> fst (getLayerData demo_lib demo_loaded 0 ''maskdimage'')
       = Inr [[[0, 0, 255, 255], [0, 0, 255, 255]], [[0, 0, 255, 255], [0, 0, 255, 255]]]"
proof -
  have a: "isLoaded demo_loaded" "length (layerList (doc demo_loaded)) = 1"
    "lay_width (layerList (doc demo_loaded) ! 0) = 2"
    "lay_height (layerList (doc demo_loaded) ! 0) = 2"
    by (simp_all add: demo_loaded_def demo_doc_def demo_layer_def)
  have f: "fetch_image (\<lambda>pitch. demo_red) 2 2
      = Inr [[[0, 0, 255, 255], [0, 0, 255, 255]], [[0, 0, 255, 255], [0, 0, 255, 255]]]"
    by code_simp
  have n: "[] \<noteq> ''mask''" "[] \<noteq> ''raw''" "''Raw'' \<noteq> ''mask''" "''Raw'' \<noteq> ''raw''"
    "''maskdimage'' \<noteq> ''mask''" "''maskdimage'' \<noteq> ''raw''"
    by simp_all
  have e1: "getLayerData demo_lib demo_loaded 0 []
              = getLayerData demo_lib demo_loaded 0 ''maskedimage''"
    by (rule getLayerData_other_mode_is_maskedimage [OF n(1,2), THEN conjunct1])
  have e2: "getLayerData demo_lib demo_loaded 0 ''Raw''
              = getLayerData demo_lib demo_loaded 0 ''maskedimage''"
    by (rule getLayerData_other_mode_is_maskedimage [OF n(3,4), THEN conjunct1])
  have "fst (getLayerData demo_lib demo_loaded 0 ''maskdimage'')
          = fetch_image
              (\<lambda>pitch. lib_getLayerImage demo_lib demo_loaded
                         (layerList (doc demo_loaded) ! 0) BGRA_LE pitch
                         IMAGE_MODE_MASKEDIMAGE) 2 2"
    using getLayerData_other_mode_is_maskedimage
            [OF n(5,6), of demo_lib demo_loaded 0, THEN conjunct2]
    by (simp add: a)
  then have e3: "fst (getLayerData demo_lib demo_loaded 0 ''maskdimage'')
      = Inr [[[0, 0, 255, 255], [0, 0, 255, 255]], [[0, 0, 255, 255], [0, 0, 255, 255]]]"
    by (simp add: f demo_lib_def)
  show ?thesis
    by (intro conjI) (rule e1, rule e2, rule e3)
qed

subsection \<open>The merged image\<close>

text \<open>
  What \<open>getBlend\<close> does, case by case; the last two cases are told apart by the size
  of the buffer, the \<open>int\<close> product \<open>pitch * height\<close>.
\<close>

lemma getBlend_state: "snd (getBlend L s) = s"
  by (simp add: getBlend_def Let_def)

lemma getBlend_not_loaded:
  "\<not> isLoaded s \<Longrightarrow> fst (getBlend L s) = Inl (RuntimeError ''No PSD data loaded'')"
  by (simp add: getBlend_def no_data_error_def)

lemma getBlend_no_composite:
  "isLoaded s \<Longrightarrow> \<not> imageData (doc s) \<Longrightarrow>
   fst (getBlend L s)
     = Inl (RuntimeError ''No composite image data available in the PSD file'')"
  by (simp add: getBlend_def)

lemma getBlend_in_range:
  assumes "isLoaded s" and "imageData (doc s)"
    and "0 \<le> h_width (header (doc s))" and "0 \<le> h_height (header (doc s))"
    and "h_width (header (doc s)) * 4 \<le> INT_MAX"
    and "h_width (header (doc s)) * 4 * h_height (header (doc s)) \<le> INT_MAX"
  shows "fst (getBlend L s)
           = Inr (copy_buffer
                    (lib_getMergedImage L s BGRA_LE (h_width (header (doc s)) * 4))
                    (h_width (header (doc s)) * 4)
                    (h_height (header (doc s))) (h_width (header (doc s))))"
  using assms by (simp add: getBlend_def Let_def fetch_image_in_range)

lemma getBlend_out_of_range:
  assumes "isLoaded s" and "imageData (doc s)"
    and "0 \<le> h_width (header (doc s))" and "0 \<le> h_height (header (doc s))"
    and "INT_MAX < h_width (header (doc s)) * 4 * h_height (header (doc s))"
  shows "fst (getBlend L s) = Inl SignedOverflow"
  using assms
  by (simp add: getBlend_def Let_def fetch_image_def int_mul_def split: sum.splits)

text \<open>
  C6. The claim is that \<open>getBlend\<close> on a loaded document with a merged image returns
  the array of the canvas. The loaded document below has the largest canvas of a PSD
  file, 30000 by 30000 pixels, and a merged image; its buffer would have 3600000000
  bytes, more than an \<open>int\<close> holds, and the call ends in the overflow of
  \<open>pitch * height\<close>, whatever the library is.
\<close>

theorem getBlend_large_canvas_overflows:
  "isLoaded demo_large \<and> imageData (doc demo_large)
   \<and> h_width (header (doc demo_large)) = 30000
   \<and> h_height (header (doc demo_large)) = 30000
   \<and> fst (getBlend L demo_large) = Inl SignedOverflow"
  by (simp add: demo_large_def demo_loaded_def demo_doc_def getBlend_def fetch_image_def
        int_mul_def INT_MAX_def INT_MIN_def)

theorem getBlend_large_canvas_overflows_witness:
  "fst (getBlend demo_lib demo_large) = Inl SignedOverflow"
  using getBlend_large_canvas_overflows [of demo_lib] by simp

subsection \<open>The same layer, twice\<close>

text \<open>
  \<open>getLayerData\<close> leaves the object as it was, so a second call has the outcome of the
  first; the outcome is an array as long as the \<open>int\<close> product \<open>pitch * height\<close> is in
  range.
\<close>

lemma getLayerData_repeat:
  "getLayerData L (snd (getLayerData L s i mode)) i mode = getLayerData L s i mode"
  by (simp add: getLayerData_state)

lemma getLayerData_raw_in_range:
  assumes "isLoaded s" and "0 \<le> i" and "i < int (length (layerList (doc s)))"
    and "0 < lay_width (layerList (doc s) ! nat i)"
    and "0 < lay_height (layerList (doc s) ! nat i)"
    and "lay_width (layerList (doc s) ! nat i) * 4 \<le> INT_MAX"
    and "lay_width (layerList (doc s) ! nat i) * 4 * lay_height (layerList (doc s) ! nat i)
           \<le> INT_MAX"
  shows "fst (getLayerData L s i ''raw'')
           = Inr (copy_buffer
                    (lib_getLayerImage L s (layerList (doc s) ! nat i) BGRA_LE
                       (lay_width (layerList (doc s) ! nat i) * 4) IMAGE_MODE_IMAGE)
                    (lay_width (layerList (doc s) ! nat i) * 4)
                    (lay_height (layerList (doc s) ! nat i))
                    (lay_width (layerList (doc s) ! nat i)))"
  using assms
  by (simp add: getLayerData_def invalid_layer_def Let_def fetch_image_in_range)

text \<open>
  C8. The claim is that two calls of \<open>getLayerData\<close> in mode \<open>raw\<close> on a layer of
  positive width and height return the same buffer. The only layer of the document
  below measures 30000 by 30000 pixels: both calls end in the overflow of
  \<open>pitch * height\<close> and return no buffer, whatever the library is.
\<close>

theorem getLayerData_raw_large_layer_overflows:
  "isLoaded demo_large \<and> length (layerList (doc demo_large)) = 1
   \<and> lay_width (layerList (doc demo_large) ! 0) = 30000
   \<and> lay_height (layerList (doc demo_large) ! 0) = 30000
   \<and> fst (getLayerData L demo_large 0 ''raw'') = Inl SignedOverflow
   \<and> fst (getLayerData L (snd (getLayerData L demo_large 0 ''raw'')) 0 ''raw'')
       = Inl SignedOverflow"
  by (simp add: getLayerData_state)
     (simp add: demo_large_def demo_loaded_def demo_doc_def demo_layer_def getLayerData_def
        invalid_layer_def fetch_image_def int_mul_def INT_MAX_def INT_MIN_def)

theorem getLayerData_raw_large_layer_overflows_witness:
  "fst (getLayerData demo_lib demo_large 0 ''raw'') = Inl SignedOverflow"
  using getLayerData_raw_large_layer_overflows [of demo_lib] by simp

section \<open>Automatic layer ids\<close>

lemma Max_insert_max:
  fixes a b :: int
  assumes "finite S"
  shows "Max (insert (max a b) S) = max a (Max (insert b S))"
proof (cases "S = {}")
  case True
  then show ?thesis by simp
next
  case False
  with assms show ?thesis by (simp add: max.assoc)
qed

lemma max_layerId_Max:
  "max_layerId minId layers = Max (insert minId (lay_layerId ` set layers))"
proof (induction layers arbitrary: minId)
  case Nil
  show ?case by simp
next
  case (Cons layer layers)
  have "(if minId < lay_layerId layer then lay_layerId layer else minId)
          = max minId (lay_layerId layer)"
    by (simp add: max_def)
  then show ?case
    by (simp add: Cons.IH Max_insert_max)
qed

lemma assign_loop_none:
  "unassigned layers = [] \<Longrightarrow> assign_loop baseId assigned layers = (Inr assigned, layers)"
  by (induction layers) (auto simp: unassigned_def split: if_splits)

text \<open>The second loop, as long as neither counter leaves the range of \<open>int\<close>.\<close>

lemma assign_loop_numbers:
  assumes "baseId + int (length (unassigned layers)) \<le> INT_MAX"
    and "assigned + int (length (unassigned layers)) \<le> INT_MAX"
  shows "assign_loop baseId assigned layers =
     (Inr (assigned + int (length (unassigned layers))),
      map (\<lambda>i. let layer = layers ! i
               in if lay_layerId layer = - 1
                  then layer\<lparr>lay_layerId :=
                         baseId + 1 + int (length (unassigned (take i layers)))\<rparr>
                  else layer)
          [0..<length layers])"
  using assms
proof (induction layers arbitrary: baseId assigned)
  case Nil
  show ?case by (simp add: unassigned_def)
next
  case (Cons layer layers)
  show ?case
  proof (cases "lay_layerId layer = - 1")
    case True
    have b: "baseId + 1 + int (length (unassigned layers)) \<le> INT_MAX"
      and a: "assigned + 1 + int (length (unassigned layers)) \<le> INT_MAX"
      using Cons.prems True by (simp_all add: unassigned_def)
    have ib: "int_incr baseId = Inr (baseId + 1)"
      and ia: "int_incr assigned = Inr (assigned + 1)"
      using a b by (simp_all add: int_incr_def)
    show ?thesis
      using True Cons.IH [OF b a]
      by (simp add: ib ia map_upt_Suc Let_def unassigned_def del: upt_Suc)
  next
    case False
    have b: "baseId + int (length (unassigned layers)) \<le> INT_MAX"
      and a: "assigned + int (length (unassigned layers)) \<le> INT_MAX"
      using Cons.prems False by (simp_all add: unassigned_def)
    show ?thesis
      using False Cons.IH [OF b a]
      by (simp add: map_upt_Suc Let_def unassigned_def del: upt_Suc)
  qed
qed

lemma renumbered_none:
  assumes "unassigned layers = []"
  shows "renumbered baseId layers = layers"
proof -
  from assms have "\<forall>layer \<in> set layers. lay_layerId layer \<noteq> - 1"
    by (auto simp: unassigned_def filter_empty_conv)
  then have "renumbered baseId layers = map (\<lambda>i. layers ! i) [0..<length layers]"
    by (simp add: renumbered_def Let_def)
  then show ?thesis by (simp add: map_nth)
qed

text \<open>
  With an unassigned layer in the list, the base id that the second loop starts from is
  the largest of the given base id and the layer ids.
\<close>

lemma top_id_unassigned:
  assumes "unassigned layers \<noteq> []"
  shows "(if baseId < max_layerId (- 1) layers then max_layerId (- 1) layers else baseId)
           = top_id baseId layers"
proof -
  from assms have "- 1 \<in> lay_layerId ` set layers"
    by (force simp: unassigned_def filter_empty_conv)
  then have "insert (- 1) (lay_layerId ` set layers) = lay_layerId ` set layers"
    by auto
  then have m: "max_layerId (- 1) layers = Max (lay_layerId ` set layers)"
    by (simp add: max_layerId_Max)
  from assms have ne: "lay_layerId ` set layers \<noteq> {}"
    by (auto simp: unassigned_def)
  show ?thesis
    using ne by (simp add: m top_id_def max_def)
qed

text \<open>
  C4, as the spec has it, for every base id: the unassigned layers get the ids that
  follow the largest of the base id and the layer ids. A layer id is an \<open>int\<close>; with
  the base id 2147483647, the largest \<open>int\<close>, and the layer ids \<open>-1\<close>, \<open>5\<close>, \<open>-1\<close>, the id
  to assign first would be 2147483648, and the call ends in the overflow of \<open>++baseId\<close>.
\<close>

theorem assignAutoIds_overflow_counterexample:
  "isLoaded demo_three \<and> (2147483647::int) \<le> INT_MAX
   \<and> map lay_layerId (layerList (doc demo_three)) = [- 1, 5, - 1]
   \<and> fst (assignAutoIds demo_three 2147483647) = Inl SignedOverflow"
  by (simp add: demo_three_def demo_loaded_def demo_doc_def demo_layer_def INT_MAX_def
        assignAutoIds_def int_incr_def Let_def)

text \<open>
  C4, amended. For every loaded document and every base id such that the ids to assign
  do not exceed 2147483647, the largest \<open>int\<close> (and the number of unassigned layers does
  not either), \<open>assignAutoIds\<close> gives new ids to exactly the layers whose id is \<open>-1\<close>,
  in list order and in sequence, starting one above the largest of the base id and the
  layer ids, changes nothing else, and returns the number of layers it has numbered. A
  document without an unassigned layer is left as it is, and 0 is returned.
\<close>

theorem assignAutoIds_renumbers:
  assumes "isLoaded s"
  shows "(top_id baseId (layerList (doc s)) + int (length (unassigned (layerList (doc s))))
            \<le> INT_MAX
          \<and> int (length (unassigned (layerList (doc s)))) \<le> INT_MAX
          \<longrightarrow> assignAutoIds s baseId =
               (Inr (int (length (unassigned (layerList (doc s))))),
                s\<lparr>doc := (doc s)\<lparr>layerList := renumbered baseId (layerList (doc s))\<rparr>\<rparr>))
       \<and> (unassigned (layerList (doc s)) = [] \<longrightarrow> assignAutoIds s baseId = (Inr 0, s))"
proof (cases "unassigned (layerList (doc s)) = []")
  case True
  then show ?thesis
    using assms by (simp add: assignAutoIds_def assign_loop_none renumbered_none Let_def)
next
  case False
  let ?ls = "layerList (doc s)"
  {
    assume b: "top_id baseId ?ls + int (length (unassigned ?ls)) \<le> INT_MAX"
      and a: "int (length (unassigned ?ls)) \<le> INT_MAX"
    have "assign_loop (top_id baseId ?ls) 0 ?ls =
            (Inr (int (length (unassigned ?ls))), renumbered baseId ?ls)"
      using assign_loop_numbers [of "top_id baseId ?ls" ?ls 0] a b
      by (simp add: renumbered_def)
    then have "assignAutoIds s baseId =
               (Inr (int (length (unassigned ?ls))),
                s\<lparr>doc := (doc s)\<lparr>layerList := renumbered baseId ?ls\<rparr>\<rparr>)"
      using assms top_id_unassigned [OF False, of baseId]
      by (simp add: assignAutoIds_def Let_def)
  }
  with False show ?thesis by simp
qed

text \<open>
  The example of the spec: the layer ids \<open>-1\<close>, \<open>5\<close>, \<open>-1\<close> and the base id 0 give the ids
  6, 5, 7 and the result 2; a document whose only layer has the id 5 stays as it is.
\<close>

theorem assignAutoIds_renumbers_witness:
  "fst (assignAutoIds demo_three 0) = Inr 2
   \<and> map lay_layerId (layerList (doc (snd (assignAutoIds demo_three 0)))) = [6, 5, 7]
   \<and> assignAutoIds
        (demo_loaded\<lparr>doc := demo_doc\<lparr>layerList := [demo_layer\<lparr>lay_layerId := 5\<rparr>]\<rparr>\<rparr>) 0
       = (Inr 0,
          demo_loaded\<lparr>doc := demo_doc\<lparr>layerList := [demo_layer\<lparr>lay_layerId := 5\<rparr>]\<rparr>\<rparr>)"
proof -
  have l: "isLoaded demo_three"
    by (simp add: demo_three_def demo_loaded_def)
  have u: "length (unassigned (layerList (doc demo_three))) = 2"
    by (simp add: demo_three_def demo_loaded_def demo_doc_def demo_layer_def
          unassigned_def)
  have t: "top_id 0 (layerList (doc demo_three)) = 5"
    by (simp add: demo_three_def demo_loaded_def demo_doc_def demo_layer_def top_id_def)
  have r: "map lay_layerId (renumbered 0 (layerList (doc demo_three))) = [6, 5, 7]"
    by code_simp
  have l5: "isLoaded
      (demo_loaded\<lparr>doc := demo_doc\<lparr>layerList := [demo_layer\<lparr>lay_layerId := 5\<rparr>]\<rparr>\<rparr>)"
    by (simp add: demo_loaded_def)
  have u5: "unassigned (layerList (doc
      (demo_loaded\<lparr>doc := demo_doc\<lparr>layerList := [demo_layer\<lparr>lay_layerId := 5\<rparr>]\<rparr>\<rparr>))) = []"
    by (simp add: unassigned_def)
  from assignAutoIds_renumbers [OF l, of 0] assignAutoIds_renumbers [OF l5, of 0] u5
  show ?thesis
    by (simp add: u t r INT_MAX_def)
qed

end
